theory Spec2Isabelle
  imports Complex_Main "HOL-Library.Sublist" "HOL-Library.Log_Nat"
begin

section \<open>Python values\<close>

text \<open>
  The collector reads JSON from the remote source, so a raw record is a Python
  dict whose values are arbitrary JSON values. A finite float is represented by the
  rational number it denotes; strings are ASCII character lists; a dict is an
  association list read with \<open>map_of\<close>.
\<close>

datatype pyfloat = Finite rat | NaN | Infinity bool

datatype pyval =
    PNone
  | PBool bool
  | PInt int
  | PFloat pyfloat
  | PStr string
  | PList "pyval list"
  | PDict "(string \<times> pyval) list"

type_synonym raw_record = "(string \<times> pyval) list"

datatype py_error =
    AttributeError
  | TypeError
  | ValueError
  | OverflowError
  | RequestException string
  | JSONDecodeError
  | StoreError string

text \<open>Truth value testing, as used by \<open>if x\<close>, \<open>not x\<close>, \<open>x or y\<close> and \<open>x and y\<close>.\<close>

fun truthy :: "pyval \<Rightarrow> bool" where
  "truthy PNone = False"
| "truthy (PBool b) = b"
| "truthy (PInt n) = (n \<noteq> 0)"
| "truthy (PFloat f) = (f \<noteq> Finite 0)"
| "truthy (PStr s) = (s \<noteq> [])"
| "truthy (PList xs) = (xs \<noteq> [])"
| "truthy (PDict kvs) = (kvs \<noteq> [])"

definition py_or :: "pyval \<Rightarrow> pyval \<Rightarrow> pyval" where
  "py_or a b = (if truthy a then a else b)"

text \<open>\<open>record.get(key, default)\<close>.\<close>

definition dict_get :: "raw_record \<Rightarrow> string \<Rightarrow> pyval \<Rightarrow> pyval" where
  "dict_get r k d = (case map_of r k of None \<Rightarrow> d | Some v \<Rightarrow> v)"

text \<open>
  The conversions of the Python library that read or write text are parameters of
  the model: \<open>int(s)\<close> and \<open>float(s)\<close> on a string (\<open>None\<close> when the
  library raises \<open>ValueError\<close>) and \<open>str(v)\<close> as used by an f-string.
\<close>

record py_builtins =
  int_of_str :: "string \<Rightarrow> int option"
  float_of_str :: "string \<Rightarrow> pyfloat option"
  str_of :: "pyval \<Rightarrow> string"

text \<open>\<open>int(v)\<close>: a float is truncated towards zero.\<close>

fun py_int :: "py_builtins \<Rightarrow> pyval \<Rightarrow> py_error + int" where
  "py_int B (PInt n) = Inr n"
| "py_int B (PBool b) = Inr (if b then 1 else 0)"
| "py_int B (PFloat (Finite r)) = Inr (if 0 \<le> r then \<lfloor>r\<rfloor> else \<lceil>r\<rceil>)"
| "py_int B (PFloat NaN) = Inl ValueError"
| "py_int B (PFloat (Infinity s)) = Inl OverflowError"
| "py_int B (PStr s) = (case int_of_str B s of None \<Rightarrow> Inl ValueError | Some n \<Rightarrow> Inr n)"
| "py_int B PNone = Inl TypeError"
| "py_int B (PList xs) = Inl TypeError"
| "py_int B (PDict kvs) = Inl TypeError"

text \<open>
  \<open>float(n)\<close> on an int: exact up to 53 bits, otherwise rounded to the nearest
  double (ties to even), \<open>OverflowError\<close> beyond the range of a double.
\<close>

definition float_of_int :: "int \<Rightarrow> py_error + pyfloat" where
  "float_of_int n =
     (let a = \<bar>n\<bar> in
      if a \<le> 2 ^ 53 then Inr (Finite (of_int n))
      else
        let e = nat (bitlen a - 53);
            q = a div 2 ^ e;
            r = a mod 2 ^ e;
            h = 2 ^ (e - 1);
            q' = (if h < r \<or> (r = h \<and> odd q) then q + 1 else q);
            v = q' * 2 ^ e
        in if 2 ^ 1024 \<le> v then Inl OverflowError
           else Inr (Finite (of_int (if n < 0 then - v else v))))"

fun py_float :: "py_builtins \<Rightarrow> pyval \<Rightarrow> py_error + pyfloat" where
  "py_float B (PInt n) = float_of_int n"
| "py_float B (PBool b) = Inr (Finite (if b then 1 else 0))"
| "py_float B (PFloat f) = Inr f"
| "py_float B (PStr s) = (case float_of_str B s of None \<Rightarrow> Inl ValueError | Some f \<Rightarrow> Inr f)"
| "py_float B PNone = Inl TypeError"
| "py_float B (PList xs) = Inl TypeError"
| "py_float B (PDict kvs) = Inl TypeError"

text \<open>\<open>s.upper()\<close> and \<open>s.strip()\<close> on ASCII text.\<close>

definition upper_char :: "char \<Rightarrow> char" where
  "upper_char c =
     (let n = (of_char c :: nat) in if 97 \<le> n \<and> n \<le> 122 then char_of (n - 32) else c)"

definition upper :: "string \<Rightarrow> string" where
  "upper s = map upper_char s"

definition is_space :: "char \<Rightarrow> bool" where
  "is_space c = (c \<in> set [CHR 0x20, CHR 0x09, CHR 0x0A, CHR 0x0B, CHR 0x0C, CHR 0x0D,
                           CHR 0x1C, CHR 0x1D, CHR 0x1E, CHR 0x1F])"

definition strip :: "string \<Rightarrow> string" where
  "strip s = rev (dropWhile is_space (rev (dropWhile is_space s)))"

section \<open>Entities\<close>

record PhysicianProfile =
  npi :: pyval
  first_name :: pyval
  last_name :: pyval
  organization_name :: pyval
  street_address_1 :: pyval
  city :: pyval
  state :: pyval
  zip_code :: pyval
  country :: pyval
  specialty_description :: pyval
  specialty_code :: pyval
  medicare_participation :: pyval

record ProcedureData =
  npi :: pyval
  physician_name :: string
  year :: int
  hcpcs_code :: pyval
  hcpcs_description :: pyval
  line_service_count :: int
  beneficiary_unique_count :: int
  average_submitted_charge :: pyfloat
  average_medicare_allowed :: pyfloat
  average_medicare_payment :: pyfloat
  average_medicare_standard_payment :: pyfloat

section \<open>Entity extraction\<close>

definition extract_physician_profile :: "raw_record \<Rightarrow> PhysicianProfile" where
  "extract_physician_profile record =
     \<lparr> PhysicianProfile.npi = dict_get record ''Rndrng_NPI'' (PStr ''''),
       first_name = dict_get record ''Rndrng_Prvdr_First_Name'' (PStr ''''),
       last_name = dict_get record ''Rndrng_Prvdr_Last_Name'' (PStr ''''),
       organization_name = dict_get record ''Rndrng_Prvdr_Org_Name'' (PStr ''''),
       street_address_1 = dict_get record ''Rndrng_Prvdr_St1'' (PStr ''''),
       city = dict_get record ''Rndrng_Prvdr_City'' (PStr ''''),
       state = dict_get record ''Rndrng_Prvdr_State_Abrvtn'' (PStr ''''),
       zip_code = dict_get record ''Rndrng_Prvdr_Zip5'' (PStr ''''),
       country = dict_get record ''Rndrng_Prvdr_Cntry'' (PStr ''''),
       specialty_description = dict_get record ''Provider_Type'' (PStr ''''),
       specialty_code = dict_get record ''Medicare_Participation_Indicator'' (PStr ''''),
       medicare_participation = dict_get record ''Medicare_Participation_Indicator'' (PStr '''') \<rparr>"

text \<open>
  \<open>int(record.get(k, 0) or 0)\<close> and \<open>float(record.get(k, 0) or 0)\<close>: the
  conversion is applied to the field unless the field is absent or falsy.
\<close>

definition int_field :: "py_builtins \<Rightarrow> raw_record \<Rightarrow> string \<Rightarrow> py_error + int" where
  "int_field B record k = py_int B (py_or (dict_get record k (PInt 0)) (PInt 0))"

definition float_field :: "py_builtins \<Rightarrow> raw_record \<Rightarrow> string \<Rightarrow> py_error + pyfloat" where
  "float_field B record k = py_float B (py_or (dict_get record k (PInt 0)) (PInt 0))"

text \<open>
  The keyword arguments are evaluated in the order written, so the first
  conversion that raises decides the exception.
\<close>

definition extract_procedure_data ::
  "py_builtins \<Rightarrow> raw_record \<Rightarrow> int \<Rightarrow> py_error + ProcedureData" where
  "extract_procedure_data B record yr =
     (let physician_name' =
            str_of B (dict_get record ''Rndrng_Prvdr_First_Name'' (PStr '''')) @ '' '' @
            str_of B (dict_get record ''Rndrng_Prvdr_Last_Name'' (PStr ''''))
      in
      case int_field B record ''Tot_Srvcs'' of Inl e \<Rightarrow> Inl e | Inr srvcs \<Rightarrow>
      case int_field B record ''Tot_Benes'' of Inl e \<Rightarrow> Inl e | Inr benes \<Rightarrow>
      case float_field B record ''Avg_Sbmtd_Chrg'' of Inl e \<Rightarrow> Inl e | Inr sbmtd \<Rightarrow>
      case float_field B record ''Avg_Mdcr_Alowd_Amt'' of Inl e \<Rightarrow> Inl e | Inr alowd \<Rightarrow>
      case float_field B record ''Avg_Mdcr_Pymt_Amt'' of Inl e \<Rightarrow> Inl e | Inr pymt \<Rightarrow>
      case float_field B record ''Avg_Mdcr_Stdzd_Amt'' of Inl e \<Rightarrow> Inl e | Inr stdzd \<Rightarrow>
        Inr \<lparr> ProcedureData.npi = dict_get record ''Rndrng_NPI'' (PStr ''''),
              physician_name = strip physician_name',
              year = yr,
              hcpcs_code = dict_get record ''HCPCS_Cd'' (PStr ''''),
              hcpcs_description = dict_get record ''HCPCS_Desc'' (PStr ''''),
              line_service_count = srvcs,
              beneficiary_unique_count = benes,
              average_submitted_charge = sbmtd,
              average_medicare_allowed = alowd,
              average_medicare_payment = pymt,
              average_medicare_standard_payment = stdzd \<rparr>)"

section \<open>Remote fetch and classification\<close>

definition resource_ids :: "int \<Rightarrow> string option" where
  "resource_ids =
     map_of
       [(2022, ''medicare-physician-other-practitioners-by-provider-and-service-2022''),
        (2021, ''medicare-physician-other-practitioners-by-provider-and-service-2021''),
        (2020, ''medicare-physician-other-practitioners-by-provider-and-service-2020''),
        (2019, ''medicare-physician-other-practitioners-by-provider-and-service-2019''),
        (2018, ''medicare-physician-other-practitioners-by-provider-and-service-2018'')]"

definition atlanta_zips :: "string list" where
  "atlanta_zips =
     [''30309'', ''30324'', ''30326'', ''30327'', ''30305'', ''30306'', ''30307'', ''30308'',
      ''30309'', ''30310'', ''30311'', ''30312'', ''30313'', ''30314'', ''30315'', ''30316'',
      ''30317'', ''30318'', ''30319'', ''30324'', ''30325'', ''30326'', ''30327'', ''30328'',
      ''30329'', ''30331'', ''30332'', ''30334'', ''30336'', ''30337'', ''30338'', ''30339'',
      ''30340'', ''30341'', ''30342'', ''30344'', ''30345'', ''30346'', ''30347'', ''30348'',
      ''30349'', ''30350'', ''30354'', ''30360'', ''30361'', ''30363'', ''30364'', ''30366'',
      ''30368'', ''30369'', ''30370'', ''30371'', ''30374'', ''30375'', ''30376'', ''30377'',
      ''30378'', ''30380'', ''30384'', ''30385'', ''30388'', ''30392'', ''30394'', ''30396'',
      ''30398'']"

definition orthopedic_specialties :: "string list" where
  "orthopedic_specialties =
     [''Orthopedic Surgery'', ''Orthopaedic Surgery'', ''Hand Surgery'', ''Sports Medicine'',
      ''Interventional Pain Management'']"

text \<open>\<open>v.upper()\<close> on a value that need not be a string.\<close>

definition py_upper :: "pyval \<Rightarrow> py_error + string" where
  "py_upper v = (case v of PStr s \<Rightarrow> Inr (upper s) | _ \<Rightarrow> Inl AttributeError)"

text \<open>
  The body of the filtering loop of \<open>search_atlanta_orthopedic_physicians\<close>: the
  decision \<open>is_atlanta_area and is_orthopedic\<close> for one record, or the exception
  raised while computing it. \<open>'ATLANTA' in city\<close> is substring containment.
\<close>

definition is_atlanta_area :: "pyval \<Rightarrow> string \<Rightarrow> bool" where
  "is_atlanta_area zip5 city_upper =
     (zip5 \<in> set (map PStr atlanta_zips) \<or>
      sublist ''ATLANTA'' city_upper \<or>
      sublist ''DECATUR'' city_upper \<or>
      sublist ''MARIETTA'' city_upper \<or>
      sublist ''ROSWELL'' city_upper \<or>
      sublist ''ALPHARETTA'' city_upper)"

definition is_orthopedic :: "string \<Rightarrow> bool" where
  "is_orthopedic specialty_upper =
     list_ex (\<lambda>ortho. sublist (upper ortho) specialty_upper) orthopedic_specialties"

definition accept_record :: "raw_record \<Rightarrow> py_error + bool" where
  "accept_record record =
     (let zip5 = dict_get record ''Rndrng_Prvdr_Zip5'' (PStr '''');
          specialty = dict_get record ''Provider_Type'' (PStr '''')
      in
      case py_upper (dict_get record ''Rndrng_Prvdr_City'' (PStr '''')) of
        Inl e \<Rightarrow> Inl e
      | Inr city_upper \<Rightarrow>
          (case py_upper specialty of
             Inl e \<Rightarrow> Inl e
           | Inr specialty_upper \<Rightarrow>
               Inr (is_atlanta_area zip5 city_upper \<and> is_orthopedic specialty_upper)))"

text \<open>
  The loop over \<open>data.get('records', [])\<close>. An exception (a list element that is not
  a dict, a city or provider type that is not a string) leaves the loop; the enclosing
  handler logs it and the function returns the records accepted so far.
\<close>

fun filter_records :: "pyval list \<Rightarrow> raw_record list \<Rightarrow> raw_record list" where
  "filter_records [] all_records = all_records"
| "filter_records (PDict record # rest) all_records =
     (case accept_record record of
        Inl e \<Rightarrow> all_records
      | Inr a \<Rightarrow> filter_records rest (if a then all_records @ [record] else all_records))"
| "filter_records (v # rest) all_records = all_records"

text \<open>
  What \<open>session.get\<close> does: it raises (timeout, transport error) or returns a
  response with a status code, a text and, when the text is JSON, the parsed body.
  The remote source is a function of the resource id and the record cap.
\<close>

datatype http_outcome = Raises py_error | Response int string "pyval option"

type_synonym remote = "string \<Rightarrow> int \<Rightarrow> http_outcome"

definition search_atlanta_orthopedic_physicians :: "remote \<Rightarrow> int \<Rightarrow> int \<Rightarrow> raw_record list" where
  "search_atlanta_orthopedic_physicians rem yr limit =
     (case resource_ids yr of
        None \<Rightarrow> []
      | Some resource_id \<Rightarrow>
          (case rem resource_id limit of
             Raises e \<Rightarrow> []
           | Response status_code txt body \<Rightarrow>
               if status_code = 200 then
                 (case body of
                    Some (PDict data) \<Rightarrow>
                      (case dict_get data ''records'' (PList []) of
                         PList records \<Rightarrow> filter_records records []
                       | _ \<Rightarrow> [])
                  | _ \<Rightarrow> [])
               else []))"

section \<open>The store\<close>

text \<open>
  The three tables, in insertion order. The row identifiers of \<open>procedure_data\<close>
  and \<open>collection_logs\<close> are the positions in the lists; the timestamps are left
  out. The stored error message is kept as the exception it is the text of.

  Every store function opens its own connection and commits once, after all its
  statements: either all of its rows are written or none is. \<open>store_faults\<close> says
  for each coming connection whether the store is unreachable then (the message of the
  error it raises); when the list is used up the store is reachable.
  \<open>slept\<close> is the time spent in \<open>time.sleep\<close>, in seconds.

  SQLite's conversion of a bound number to text in a \<open>TEXT\<close> column is not
  modelled: rows hold the values as bound, and the results about provider keys are
  stated for keys that are strings, as \<open>PhysicianProfile\<close> declares them.
\<close>

record result_entry =
  physicians :: nat
  procedures :: nat
  error :: "py_error option"

record collection_log =
  year :: int
  status :: string
  records_collected :: nat
  physicians_found :: nat
  error_message :: "py_error option"

record world =
  physicians :: "PhysicianProfile list"
  procedure_data :: "ProcedureData list"
  collection_logs :: "collection_log list"
  store_faults :: "string option list"
  slept :: nat

definition connect :: "world \<Rightarrow> py_error + world" where
  "connect w =
     (case store_faults w of
        [] \<Rightarrow> Inr w
      | None # fs \<Rightarrow> Inr (w\<lparr>store_faults := fs\<rparr>)
      | Some msg # fs \<Rightarrow> Inl (StoreError msg))"

definition after_connect :: "world \<Rightarrow> world" where
  "after_connect w = w\<lparr>store_faults := tl (store_faults w)\<rparr>"

text \<open>
  Binding a parameter of a statement: a list or a dict is not a supported type, and
  an int must fit 64 bits.
\<close>

definition bind_error :: "pyval \<Rightarrow> py_error option" where
  "bind_error v =
     (case v of
        PList xs \<Rightarrow> Some (StoreError ''Error binding parameter: type is not supported'')
      | PDict kvs \<Rightarrow> Some (StoreError ''Error binding parameter: type is not supported'')
      | PInt n \<Rightarrow> (if - (2 ^ 63) \<le> n \<and> n < 2 ^ 63 then None else Some OverflowError)
      | _ \<Rightarrow> None)"

fun first_bind_error :: "pyval list \<Rightarrow> py_error option" where
  "first_bind_error [] = None"
| "first_bind_error (v # vs) = (case bind_error v of Some e \<Rightarrow> Some e | None \<Rightarrow> first_bind_error vs)"

definition physician_params :: "PhysicianProfile \<Rightarrow> pyval list" where
  "physician_params p =
     [PhysicianProfile.npi p, first_name p, last_name p, organization_name p,
      street_address_1 p, city p, state p, zip_code p, country p,
      specialty_description p, specialty_code p, medicare_participation p]"

definition procedure_params :: "ProcedureData \<Rightarrow> pyval list" where
  "procedure_params p =
     [ProcedureData.npi p, PStr (physician_name p), PInt (ProcedureData.year p),
      hcpcs_code p, hcpcs_description p, PInt (line_service_count p),
      PInt (beneficiary_unique_count p), PFloat (average_submitted_charge p),
      PFloat (average_medicare_allowed p), PFloat (average_medicare_payment p),
      PFloat (average_medicare_standard_payment p)]"

text \<open>
  \<open>INSERT OR REPLACE\<close> on the primary key \<open>npi\<close>: the row with the same key, if
  there is one, is deleted and the new row is inserted. A \<open>NULL\<close> key conflicts with
  no row.
\<close>

definition insert_or_replace :: "PhysicianProfile list \<Rightarrow> PhysicianProfile \<Rightarrow> PhysicianProfile list" where
  "insert_or_replace rows p =
     filter (\<lambda>q. \<not> (PhysicianProfile.npi q = PhysicianProfile.npi p \<and>
                      PhysicianProfile.npi p \<noteq> PNone)) rows @ [p]"

definition save_physician_data :: "world \<Rightarrow> PhysicianProfile list \<Rightarrow> (py_error + unit) \<times> world" where
  "save_physician_data w ps =
     (if ps = [] then (Inr (), w)
      else
        case connect w of
          Inl e \<Rightarrow> (Inl e, after_connect w)
        | Inr w' \<Rightarrow>
            (case first_bind_error (concat (map physician_params ps)) of
               Some e \<Rightarrow> (Inl e, w')
             | None \<Rightarrow>
                 (Inr (), w'\<lparr>world.physicians := foldl insert_or_replace (world.physicians w') ps\<rparr>)))"

definition save_procedure_data :: "world \<Rightarrow> ProcedureData list \<Rightarrow> (py_error + unit) \<times> world" where
  "save_procedure_data w ps =
     (if ps = [] then (Inr (), w)
      else
        case connect w of
          Inl e \<Rightarrow> (Inl e, after_connect w)
        | Inr w' \<Rightarrow>
            (case first_bind_error (concat (map procedure_params ps)) of
               Some e \<Rightarrow> (Inl e, w')
             | None \<Rightarrow> (Inr (), w'\<lparr>procedure_data := procedure_data w' @ ps\<rparr>)))"

definition log_collection_run ::
  "world \<Rightarrow> int \<Rightarrow> string \<Rightarrow> nat \<Rightarrow> nat \<Rightarrow> py_error option \<Rightarrow> (py_error + unit) \<times> world" where
  "log_collection_run w yr st recs phys err =
     (case connect w of
        Inl e \<Rightarrow> (Inl e, after_connect w)
      | Inr w' \<Rightarrow>
          (case bind_error (PInt yr) of
             Some e \<Rightarrow> (Inl e, w')
           | None \<Rightarrow>
               (Inr (), w'\<lparr>collection_logs := collection_logs w' @
                    [\<lparr> collection_log.year = yr, status = st, records_collected = recs,
                       physicians_found = phys, error_message = err \<rparr>]\<rparr>)))"

text \<open>
  \<open>get_collection_summary\<close>: the distinct provider count and the rows per year
  (service lines, distinct providers), newest year first. \<open>COUNT(DISTINCT npi)\<close>
  does not count \<open>NULL\<close>. The averages of \<open>top_procedures\<close> and the timestamp
  order of \<open>recent_logs\<close> are outside the model.
\<close>

definition count_distinct :: "pyval list \<Rightarrow> nat" where
  "count_distinct vs = length (remdups (filter (\<lambda>v. v \<noteq> PNone) vs))"

record collection_summary =
  total_physicians :: nat
  year_summary :: "(int \<times> nat \<times> nat) list"

definition get_collection_summary :: "world \<Rightarrow> collection_summary" where
  "get_collection_summary w =
     \<lparr> total_physicians = count_distinct (map PhysicianProfile.npi (world.physicians w)),
       year_summary =
         map (\<lambda>y. (y,
                   length (filter (\<lambda>p. ProcedureData.year p = y) (procedure_data w)),
                   count_distinct (map ProcedureData.npi
                      (filter (\<lambda>p. ProcedureData.year p = y) (procedure_data w)))))
             (rev (sort (remdups (map ProcedureData.year (procedure_data w))))) \<rparr>"

section \<open>Collection\<close>

text \<open>
  Keys of a Python dict: a list or a dict is unhashable; numbers of different types
  are the same key when they are equal; a NaN read from JSON equals no other object.
  Assigning to a key that is present keeps the key and its position and replaces the
  value, so \<open>list(d.values())\<close> is in the order of first insertion.
\<close>

definition hashable :: "pyval \<Rightarrow> bool" where
  "hashable v = (case v of PList xs \<Rightarrow> False | PDict kvs \<Rightarrow> False | _ \<Rightarrow> True)"

definition num_val :: "pyval \<Rightarrow> pyfloat option" where
  "num_val v =
     (case v of
        PBool b \<Rightarrow> Some (Finite (if b then 1 else 0))
      | PInt n \<Rightarrow> Some (Finite (of_int n))
      | PFloat f \<Rightarrow> Some f
      | _ \<Rightarrow> None)"

definition py_key_eq :: "pyval \<Rightarrow> pyval \<Rightarrow> bool" where
  "py_key_eq a b =
     (case (num_val a, num_val b) of
        (Some x, Some y) \<Rightarrow> x = y \<and> x \<noteq> NaN
      | (None, None) \<Rightarrow> a = b
      | _ \<Rightarrow> False)"

fun dict_set :: "(pyval \<times> 'v) list \<Rightarrow> pyval \<Rightarrow> 'v \<Rightarrow> (pyval \<times> 'v) list" where
  "dict_set [] k v = [(k, v)]"
| "dict_set ((k', v') # kvs) k v =
     (if py_key_eq k' k then (k', v) # kvs else (k', v') # dict_set kvs k v)"

text \<open>
  The loop of \<open>collect_year_data\<close> over the accepted records, with the dict
  \<open>physicians_dict\<close> and the list \<open>procedures\<close> as accumulators.
\<close>

fun process_records ::
  "py_builtins \<Rightarrow> int \<Rightarrow> raw_record list \<Rightarrow> (pyval \<times> PhysicianProfile) list \<Rightarrow>
   ProcedureData list \<Rightarrow> py_error + ((pyval \<times> PhysicianProfile) list \<times> ProcedureData list)" where
  "process_records B yr [] physicians_dict procs = Inr (physicians_dict, procs)"
| "process_records B yr (record # rest) physicians_dict procs =
     (let physician = extract_physician_profile record in
      if truthy (PhysicianProfile.npi physician) \<and> \<not> hashable (PhysicianProfile.npi physician)
      then Inl TypeError
      else
        let physicians_dict' =
              (if truthy (PhysicianProfile.npi physician)
               then dict_set physicians_dict (PhysicianProfile.npi physician) physician
               else physicians_dict)
        in
        case extract_procedure_data B record yr of
          Inl e \<Rightarrow> Inl e
        | Inr procedure \<Rightarrow>
            process_records B yr rest physicians_dict'
              (if truthy (ProcedureData.npi procedure) \<and> truthy (hcpcs_code procedure)
               then procs @ [procedure] else procs))"

text \<open>The body of the \<open>try\<close> block of \<open>collect_year_data\<close>.\<close>

definition collect_year_try ::
  "py_builtins \<Rightarrow> remote \<Rightarrow> world \<Rightarrow> int \<Rightarrow> (py_error + nat \<times> nat) \<times> world" where
  "collect_year_try B rem w yr =
     (let records = search_atlanta_orthopedic_physicians rem yr 2000 in
      if records = [] then
        (case log_collection_run w yr ''NO_DATA'' 0 0 None of
           (Inl e, w') \<Rightarrow> (Inl e, w')
         | (Inr u, w') \<Rightarrow> (Inr (0, 0), w'))
      else
        case process_records B yr records [] [] of
          Inl e \<Rightarrow> (Inl e, w)
        | Inr (physicians_dict, procs) \<Rightarrow>
            (let phys = map snd physicians_dict in
             case save_physician_data w phys of
               (Inl e, w1) \<Rightarrow> (Inl e, w1)
             | (Inr u, w1) \<Rightarrow>
                 (case save_procedure_data w1 procs of
                    (Inl e, w2) \<Rightarrow> (Inl e, w2)
                  | (Inr u, w2) \<Rightarrow>
                      (case log_collection_run w2 yr ''SUCCESS'' (length procs) (length phys) None of
                         (Inl e, w3) \<Rightarrow> (Inl e, w3)
                       | (Inr u, w3) \<Rightarrow> (Inr (length phys, length procs), w3)))))"

text \<open>
  \<open>collect_year_data\<close>: the handler of the \<open>try\<close> block writes the FAILED row;
  an exception raised by that write leaves the function.
\<close>

definition collect_year_data ::
  "py_builtins \<Rightarrow> remote \<Rightarrow> world \<Rightarrow> int \<Rightarrow> (py_error + nat \<times> nat) \<times> world" where
  "collect_year_data B rem w yr =
     (case collect_year_try B rem w yr of
        (Inr r, w') \<Rightarrow> (Inr r, w')
      | (Inl e, w') \<Rightarrow>
          (case log_collection_run w' yr ''FAILED'' 0 0 (Some e) of
             (Inl e', w'') \<Rightarrow> (Inl e', w'')
           | (Inr u, w'') \<Rightarrow> (Inr (0, 0), w'')))"





text \<open>
  An instance of the library conversions on decimal text, for evaluating the model
  on examples: \<open>int(s)\<close> reads an optional sign and digits, \<open>float(s)\<close> such an
  integer, and \<open>str(v)\<close> is only needed on strings there.
\<close>

definition digit_val :: "char \<Rightarrow> nat option" where
  "digit_val c = (let n = (of_char c :: nat) in if 48 \<le> n \<and> n \<le> 57 then Some (n - 48) else None)"

fun digits_val :: "string \<Rightarrow> nat \<Rightarrow> nat option" where
  "digits_val [] acc = Some acc"
| "digits_val (c # cs) acc =
     (case digit_val c of None \<Rightarrow> None | Some d \<Rightarrow> digits_val cs (10 * acc + d))"

definition decimal_int :: "string \<Rightarrow> int option" where
  "decimal_int s =
     (case strip s of
        [] \<Rightarrow> None
      | c # cs \<Rightarrow>
          if c = CHR ''-'' then (if cs = [] then None else map_option (\<lambda>n. - int n) (digits_val cs 0))
          else if c = CHR ''+'' then (if cs = [] then None else map_option int (digits_val cs 0))
          else map_option int (digits_val (c # cs) 0))"

definition std_builtins :: py_builtins where
  "std_builtins =
     \<lparr> int_of_str = decimal_int,
       float_of_str = (\<lambda>s. case decimal_int s of None \<Rightarrow> None
                             | Some n \<Rightarrow> (case float_of_int n of Inl e \<Rightarrow> None | Inr f \<Rightarrow> Some f)),
       str_of = (\<lambda>v. case v of PStr s \<Rightarrow> s | _ \<Rightarrow> ''?'') \<rparr>"

section \<open>Notions used by the properties\<close>



text \<open>The text of a field that is absent (the default \<open>''\<close>) or a string.\<close>

definition str_field :: "raw_record \<Rightarrow> string \<Rightarrow> string option" where
  "str_field record k =
     (case map_of record k of None \<Rightarrow> Some [] | Some (PStr s) \<Rightarrow> Some s | Some v \<Rightarrow> None)"

text \<open>The city names tested by \<open>is_atlanta_area\<close>.\<close>

definition city_names :: "string list" where
  "city_names = [''ATLANTA'', ''DECATUR'', ''MARIETTA'', ''ROSWELL'', ''ALPHARETTA'']"

text \<open>The provider key and the procedure code of a raw record.\<close>

definition record_key :: "raw_record \<Rightarrow> pyval" where
  "record_key r = dict_get r ''Rndrng_NPI'' (PStr [])"

definition record_code :: "raw_record \<Rightarrow> pyval" where
  "record_code r = dict_get r ''HCPCS_Cd'' (PStr [])"

definition is_str :: "pyval \<Rightarrow> bool" where
  "is_str v = (case v of PStr s \<Rightarrow> True | _ \<Rightarrow> False)"

text \<open>
  A failed fetch for a period with a known dataset: the request raises, or the status
  of the response is not 200.
\<close>

definition fetch_failed :: "remote \<Rightarrow> int \<Rightarrow> bool" where
  "fetch_failed rem yr =
     (case resource_ids yr of
        None \<Rightarrow> False
      | Some resource_id \<Rightarrow>
          (case rem resource_id 2000 of
             Raises e \<Rightarrow> True
           | Response status_code txt body \<Rightarrow> status_code \<noteq> 200))"

definition log_row :: "int \<Rightarrow> string \<Rightarrow> nat \<Rightarrow> nat \<Rightarrow> py_error option \<Rightarrow> collection_log" where
  "log_row yr st recs phys err =
     \<lparr> collection_log.year = yr, status = st, records_collected = recs,
       physicians_found = phys, error_message = err \<rparr>"

text \<open>A store with empty tables, as \<open>init_database\<close> creates it.\<close>

definition empty_world :: "string option list \<Rightarrow> world" where
  "empty_world faults =
     \<lparr> world.physicians = [], procedure_data = [], collection_logs = [],
       store_faults = faults, slept = 0 \<rparr>"

text \<open>A sequence of calls of \<open>save_physician_data\<close>, whatever each returns.\<close>

fun save_sequence :: "world \<Rightarrow> PhysicianProfile list list \<Rightarrow> world" where
  "save_sequence w [] = w"
| "save_sequence w (ps # pss) = save_sequence (snd (save_physician_data w ps)) pss"

text \<open>The service-line count of a year in the summary (0 when the year has no row).\<close>

definition year_count :: "collection_summary \<Rightarrow> int \<Rightarrow> nat" where
  "year_count S y = (case map_of (year_summary S) y of None \<Rightarrow> 0 | Some (c, d) \<Rightarrow> c)"



text \<open>Raw records and remote sources for the examples.\<close>

definition example_record :: "string \<Rightarrow> string \<Rightarrow> string \<Rightarrow> raw_record" where
  "example_record key street code =
     [(''Rndrng_NPI'', PStr key), (''Rndrng_Prvdr_St1'', PStr street),
      (''Rndrng_Prvdr_City'', PStr ''Atlanta''), (''Rndrng_Prvdr_Zip5'', PStr ''30309''),
      (''Provider_Type'', PStr ''Orthopedic Surgery''), (''HCPCS_Cd'', PStr code),
      (''Tot_Srvcs'', PStr ''12'')]"

definition serving :: "pyval list \<Rightarrow> remote" where
  "serving recs = (\<lambda>resource_id limit. Response 200 [] (Some (PDict [(''records'', PList recs)])))"

definition timing_out :: remote where
  "timing_out = (\<lambda>resource_id limit. Raises (RequestException ''Read timed out''))"

text \<open>Profiles whose key is a string, as \<open>PhysicianProfile\<close> declares it.\<close>

definition str_keys :: "PhysicianProfile list \<Rightarrow> bool" where
  "str_keys ps = list_all (\<lambda>p. is_str (PhysicianProfile.npi p)) ps"

text \<open>Two profiles with the same key and different addresses, for the examples.\<close>

definition profile1 :: PhysicianProfile where
  "profile1 = extract_physician_profile (example_record ''1003000126'' ''1 Main St'' ''27447'')"

definition profile2 :: PhysicianProfile where
  "profile2 = extract_physician_profile (example_record ''1003000126'' ''2 Oak Ave'' ''27130'')"

text \<open>
  A batch of three accepted records: two share a provider key and differ in the address
  and the procedure code, the third has an empty key.
\<close>

definition example_batch :: "raw_record list" where
  "example_batch =
     [example_record ''1003000126'' ''1 Main St'' ''27447'',
      example_record ''1003000126'' ''2 Oak Ave'' ''27130'',
      example_record [] ''3 Elm St'' ''27130'']"


text \<open>
  For a batch of accepted records: the provider keys are strings where they are not
  empty; the number of distinct non-empty provider keys; the number of records whose
  provider key and procedure code are both non-empty.
\<close>

definition simple_keys :: "raw_record list \<Rightarrow> bool" where
  "simple_keys recs = list_all (\<lambda>r. truthy (record_key r) \<longrightarrow> is_str (record_key r)) recs"

definition provider_count :: "raw_record list \<Rightarrow> nat" where
  "provider_count recs = length (remdups (filter truthy (map record_key recs)))"

definition line_count :: "raw_record list \<Rightarrow> nat" where
  "line_count recs = length (filter (\<lambda>r. truthy (record_key r) \<and> truthy (record_code r)) recs)"

text \<open>The deduplication dict when every key is a string: keys are distinct and equal the
  key of their profile.\<close>

definition dict_inv :: "(pyval \<times> PhysicianProfile) list \<Rightarrow> bool" where
  "dict_inv d = (distinct (map fst d) \<and> (\<forall>(k, v)\<in>set d. is_str k \<and> PhysicianProfile.npi v = k))"




section \<open>Entity extraction: properties\<close>









text \<open>
  Claim C10. In every profile produced by \<open>extract_physician_profile\<close> the
  \<open>specialty_code\<close> equals the \<open>medicare_participation\<close>: both are the
  record's \<open>Medicare_Participation_Indicator\<close> (the empty string when absent).
\<close>

theorem specialty_code_is_participation:
  "specialty_code (extract_physician_profile record) =
     medicare_participation (extract_physician_profile record) \<and>
   specialty_code (extract_physician_profile record) =
     dict_get record ''Medicare_Participation_Indicator'' (PStr [])"
  by (simp add: extract_physician_profile_def)

section \<open>Classification: properties\<close>

lemma is_orthopedic_surgery: "is_orthopedic (upper ''Orthopedic Surgery'')"
  by code_simp

lemma not_orthopedic_cardiology: "\<not> is_orthopedic (upper ''Cardiology'')"
  by code_simp

lemma boston_no_city: "\<not> list_ex (\<lambda>n. sublist n (upper ''Boston'')) city_names"
  by code_simp

lemma is_atlanta_area_eq:
  "is_atlanta_area z c = (z \<in> PStr ` set atlanta_zips \<or> (\<exists>n\<in>set city_names. sublist n c))"
  by (simp add: is_atlanta_area_def city_names_def)

lemma is_orthopedic_eq:
  "is_orthopedic s = (\<exists>t\<in>set orthopedic_specialties. sublist (upper t) s)"
  by (simp add: is_orthopedic_def list_ex_iff)

lemma py_upper_str_field:
  "str_field r k = Some s \<Longrightarrow> py_upper (dict_get r k (PStr [])) = Inr (upper s)"
  by (auto simp: str_field_def dict_get_def py_upper_def upper_def split: option.splits pyval.splits)

lemma py_upper_not_str:
  "str_field r k = None \<Longrightarrow> py_upper (dict_get r k (PStr [])) = Inl AttributeError"
  by (auto simp: str_field_def dict_get_def py_upper_def split: option.splits pyval.splits)

lemma accept_record_strings:
  assumes "str_field r ''Rndrng_Prvdr_City'' = Some c" and "str_field r ''Provider_Type'' = Some s"
  shows "accept_record r =
           Inr (is_atlanta_area (dict_get r ''Rndrng_Prvdr_Zip5'' (PStr [])) (upper c) \<and>
                is_orthopedic (upper s))"
  using py_upper_str_field [OF assms(1)] py_upper_str_field [OF assms(2)]
  by (simp add: accept_record_def Let_def)

lemma accept_record_raises:
  assumes "str_field r ''Rndrng_Prvdr_City'' = None \<or> str_field r ''Provider_Type'' = None"
  shows "accept_record r = Inl AttributeError"
proof (cases "str_field r ''Rndrng_Prvdr_City''")
  case None
  then show ?thesis using py_upper_not_str [OF None] by (simp add: accept_record_def Let_def)
next
  case (Some c)
  with assms have n: "str_field r ''Provider_Type'' = None" by simp
  show ?thesis
    using py_upper_str_field [OF Some] py_upper_not_str [OF n] by (simp add: accept_record_def Let_def)
qed

text \<open>
  Claim C3, as the code has it. For a raw record whose city and provider type are absent
  or strings, the filter accepts it exactly when (a) its postal code is in
  \<open>atlanta_zips\<close> or its upper-cased city contains one of the five city names as a
  substring, and (b) its upper-cased provider type contains the upper-cased text of one
  of \<open>orthopedic_specialties\<close>. When the city or the provider type is present and
  not a string the decision raises \<open>AttributeError\<close> and the record is not accepted.
  A record is kept by the loop exactly when the decision is true. A city that upper-cases
  to ATLANTA with provider type Orthopedic Surgery is accepted; city Boston with that
  provider type and a postal code outside the list is rejected; provider type Cardiology
  is rejected.
\<close>

theorem accept_record_decision:
  "(\<forall>c s. str_field r ''Rndrng_Prvdr_City'' = Some c \<and> str_field r ''Provider_Type'' = Some s \<longrightarrow>
      accept_record r =
        Inr ((dict_get r ''Rndrng_Prvdr_Zip5'' (PStr []) \<in> PStr ` set atlanta_zips \<or>
                (\<exists>n\<in>set city_names. sublist n (upper c))) \<and>
             (\<exists>t\<in>set orthopedic_specialties. sublist (upper t) (upper s)))) \<and>
   (str_field r ''Rndrng_Prvdr_City'' = None \<or> str_field r ''Provider_Type'' = None \<longrightarrow>
      accept_record r = Inl AttributeError) \<and>
   filter_records [PDict r] [] = (if accept_record r = Inr True then [r] else []) \<and>
   (\<forall>c. str_field r ''Rndrng_Prvdr_City'' = Some c \<and> upper c = ''ATLANTA'' \<and>
        str_field r ''Provider_Type'' = Some ''Orthopedic Surgery'' \<longrightarrow>
        accept_record r = Inr True) \<and>
   (str_field r ''Rndrng_Prvdr_City'' = Some ''Boston'' \<and>
      str_field r ''Provider_Type'' = Some ''Orthopedic Surgery'' \<and>
      dict_get r ''Rndrng_Prvdr_Zip5'' (PStr []) \<notin> PStr ` set atlanta_zips \<longrightarrow>
      accept_record r = Inr False) \<and>
   (\<forall>c. str_field r ''Rndrng_Prvdr_City'' = Some c \<and>
        str_field r ''Provider_Type'' = Some ''Cardiology'' \<longrightarrow>
        accept_record r = Inr False)"
proof (intro conjI allI impI)
  fix c s
  assume "str_field r ''Rndrng_Prvdr_City'' = Some c \<and> str_field r ''Provider_Type'' = Some s"
  then show "accept_record r =
        Inr ((dict_get r ''Rndrng_Prvdr_Zip5'' (PStr []) \<in> PStr ` set atlanta_zips \<or>
                (\<exists>n\<in>set city_names. sublist n (upper c))) \<and>
             (\<exists>t\<in>set orthopedic_specialties. sublist (upper t) (upper s)))"
    by (simp add: accept_record_strings is_atlanta_area_eq is_orthopedic_eq)
next
  assume "str_field r ''Rndrng_Prvdr_City'' = None \<or> str_field r ''Provider_Type'' = None"
  then show "accept_record r = Inl AttributeError" by (rule accept_record_raises)
next
  show "filter_records [PDict r] [] = (if accept_record r = Inr True then [r] else [])"
    by (cases "accept_record r") auto
next
  fix c
  assume a: "str_field r ''Rndrng_Prvdr_City'' = Some c \<and> upper c = ''ATLANTA'' \<and>
        str_field r ''Provider_Type'' = Some ''Orthopedic Surgery''"
  have "is_atlanta_area (dict_get r ''Rndrng_Prvdr_Zip5'' (PStr [])) ''ATLANTA''"
    by (simp add: is_atlanta_area_def)
  with a show "accept_record r = Inr True"
    by (simp add: accept_record_strings is_orthopedic_surgery)
next
  assume a: "str_field r ''Rndrng_Prvdr_City'' = Some ''Boston'' \<and>
      str_field r ''Provider_Type'' = Some ''Orthopedic Surgery'' \<and>
      dict_get r ''Rndrng_Prvdr_Zip5'' (PStr []) \<notin> PStr ` set atlanta_zips"
  then have "\<not> is_atlanta_area (dict_get r ''Rndrng_Prvdr_Zip5'' (PStr [])) (upper ''Boston'')"
    using boston_no_city by (simp add: is_atlanta_area_eq list_ex_iff)
  with a show "accept_record r = Inr False"
    by (simp add: accept_record_strings)
next
  fix c
  assume a: "str_field r ''Rndrng_Prvdr_City'' = Some c \<and>
        str_field r ''Provider_Type'' = Some ''Cardiology''"
  then show "accept_record r = Inr False"
    by (simp add: accept_record_strings not_orthopedic_cardiology)
qed

text \<open>
  Claim C3 as stated fails on two records. The first has a postal code of the list and
  the provider type Orthopedic Surgery, so both conditions of the claim hold, but its
  city is null: the decision raises and the loop does not keep the record. The second
  has the city North Atlanta, which is none of the city names, and no postal code, and
  is accepted, because the city is tested by containment.
\<close>

theorem accept_record_counterexample:
  "PStr ''30309'' \<in> set (map PStr atlanta_zips) \<and>
   is_orthopedic (upper ''Orthopedic Surgery'') \<and>
   accept_record [(''Rndrng_Prvdr_Zip5'', PStr ''30309''), (''Rndrng_Prvdr_City'', PNone),
        (''Provider_Type'', PStr ''Orthopedic Surgery'')] = Inl AttributeError \<and>
   filter_records [PDict [(''Rndrng_Prvdr_Zip5'', PStr ''30309''), (''Rndrng_Prvdr_City'', PNone),
        (''Provider_Type'', PStr ''Orthopedic Surgery'')]] [] = [] \<and>
   upper ''North Atlanta'' \<notin> set city_names \<and>
   accept_record [(''Rndrng_Prvdr_City'', PStr ''North Atlanta''),
        (''Provider_Type'', PStr ''Orthopedic Surgery'')] = Inr True"
  by code_simp

text \<open>
  The theorem at a record with city aTLanta and provider type Orthopedic Surgery, and at
  a record whose provider type is a number.
\<close>

theorem accept_record_decision_witness:
  "str_field [(''Rndrng_Prvdr_City'', PStr ''aTLanta''), (''Provider_Type'', PStr ''Orthopedic Surgery'')]
      ''Rndrng_Prvdr_City'' = Some ''aTLanta'' \<and>
   upper ''aTLanta'' = ''ATLANTA'' \<and>
   str_field [(''Rndrng_Prvdr_City'', PStr ''aTLanta''), (''Provider_Type'', PStr ''Orthopedic Surgery'')]
      ''Provider_Type'' = Some ''Orthopedic Surgery'' \<and>
   accept_record [(''Rndrng_Prvdr_City'', PStr ''aTLanta''), (''Provider_Type'', PStr ''Orthopedic Surgery'')]
      = Inr True \<and>
   str_field [(''Rndrng_Prvdr_City'', PStr ''Atlanta''), (''Provider_Type'', PInt 7)]
      ''Provider_Type'' = None \<and>
   accept_record [(''Rndrng_Prvdr_City'', PStr ''Atlanta''), (''Provider_Type'', PInt 7)]
      = Inl AttributeError"
proof -
  let ?r = "[(''Rndrng_Prvdr_City'', PStr ''aTLanta''), (''Provider_Type'', PStr ''Orthopedic Surgery'')]"
  let ?q = "[(''Rndrng_Prvdr_City'', PStr ''Atlanta''), (''Provider_Type'', PInt 7)]"
  have h: "str_field ?r ''Rndrng_Prvdr_City'' = Some ''aTLanta'' \<and> upper ''aTLanta'' = ''ATLANTA'' \<and>
           str_field ?r ''Provider_Type'' = Some ''Orthopedic Surgery''"
    by code_simp
  have a: "accept_record ?r = Inr True"
    using accept_record_decision [of ?r] h by blast
  have g: "str_field ?q ''Provider_Type'' = None"
    by code_simp
  have b: "accept_record ?q = Inl AttributeError"
    using accept_record_decision [of ?q] g by blast
  from h a g b show ?thesis by blast
qed

section \<open>Collecting one period: properties\<close>

lemma search_fetch_failed:
  "fetch_failed rem yr \<Longrightarrow> search_atlanta_orthopedic_physicians rem yr 2000 = []"
  by (auto simp: fetch_failed_def search_atlanta_orthopedic_physicians_def
      split: option.splits http_outcome.splits)

lemma known_year_binds: "resource_ids yr = Some rid \<Longrightarrow> bind_error (PInt yr) = None"
  by (auto simp: resource_ids_def bind_error_def split: if_splits)

lemma fetch_failed_binds: "fetch_failed rem yr \<Longrightarrow> bind_error (PInt yr) = None"
  by (auto simp: fetch_failed_def split: option.splits dest: known_year_binds)

lemma log_collection_run_ok:
  "connect w = Inr w' \<Longrightarrow> bind_error (PInt yr) = None \<Longrightarrow>
   log_collection_run w yr st a b err =
     (Inr (), w'\<lparr>collection_logs := collection_logs w' @ [log_row yr st a b err]\<rparr>)"
  by (simp add: log_collection_run_def log_row_def)

lemma log_collection_run_unreachable:
  "connect w = Inl e \<Longrightarrow> log_collection_run w yr st a b err = (Inl e, after_connect w)"
  by (simp add: log_collection_run_def)

lemma log_collection_run_unbound:
  "connect w = Inr w' \<Longrightarrow> bind_error (PInt yr) = Some e \<Longrightarrow>
   log_collection_run w yr st a b err = (Inl e, w')"
  by (simp add: log_collection_run_def)

lemma connect_tables:
  "connect w = Inr w' \<Longrightarrow>
   world.physicians w' = world.physicians w \<and> procedure_data w' = procedure_data w \<and>
   collection_logs w' = collection_logs w \<and> slept w' = slept w \<and>
   store_faults w' = tl (store_faults w)"
  by (auto simp: connect_def split: list.splits option.splits)

lemma after_connect_tables:
  "world.physicians (after_connect w) = world.physicians w \<and>
   procedure_data (after_connect w) = procedure_data w \<and>
   collection_logs (after_connect w) = collection_logs w \<and>
   slept (after_connect w) = slept w"
  by (simp add: after_connect_def)

lemma log_collection_run_tables:
  "log_collection_run w yr st a b err = (res, w') \<Longrightarrow>
   world.physicians w' = world.physicians w \<and> procedure_data w' = procedure_data w \<and>
   slept w' = slept w"
  by (cases "connect w")
     (auto simp: log_collection_run_def after_connect_tables split: option.splits
           dest: connect_tables)

lemma collect_year_try_no_data:
  "search_atlanta_orthopedic_physicians rem yr 2000 = [] \<Longrightarrow>
   collect_year_try B rem w yr =
     (case log_collection_run w yr ''NO_DATA'' 0 0 None of
        (Inl e, w') \<Rightarrow> (Inl e, w') | (Inr u, w') \<Rightarrow> (Inr (0, 0), w'))"
  by (simp add: collect_year_try_def)

lemma collect_year_data_no_data_ok:
  assumes "search_atlanta_orthopedic_physicians rem yr 2000 = []"
    and "connect w = Inr w'" and "bind_error (PInt yr) = None"
  shows "collect_year_data B rem w yr =
     (Inr (0, 0), w'\<lparr>collection_logs := collection_logs w' @ [log_row yr ''NO_DATA'' 0 0 None]\<rparr>)"
  using assms
  by (simp add: collect_year_data_def collect_year_try_no_data log_collection_run_ok)

lemma collect_year_data_no_data_tables:
  assumes "search_atlanta_orthopedic_physicians rem yr 2000 = []"
  shows "world.physicians (snd (collect_year_data B rem w yr)) = world.physicians w \<and>
         procedure_data (snd (collect_year_data B rem w yr)) = procedure_data w \<and>
         (\<forall>r. fst (collect_year_data B rem w yr) = Inr r \<longrightarrow> r = (0, 0))"
proof -
  obtain res w1 where l1: "log_collection_run w yr ''NO_DATA'' 0 0 None = (res, w1)"
    by (cases "log_collection_run w yr ''NO_DATA'' 0 0 None")
  note t1 = log_collection_run_tables [OF l1]
  show ?thesis
  proof (cases res)
    case (Inr u)
    with l1 assms t1 show ?thesis
      by (simp add: collect_year_data_def collect_year_try_no_data)
  next
    case (Inl e)
    obtain res2 w2 where l2: "log_collection_run w1 yr ''FAILED'' 0 0 (Some e) = (res2, w2)"
      by (cases "log_collection_run w1 yr ''FAILED'' 0 0 (Some e)")
    note t2 = log_collection_run_tables [OF l2]
    from Inl l1 l2 assms t1 t2 show ?thesis
      by (cases res2) (simp_all add: collect_year_data_def collect_year_try_no_data)
  qed
qed


lemma save_physician_data_ok:
  "save_physician_data w ps = (Inr u, w') \<Longrightarrow>
   world.physicians w' = foldl insert_or_replace (world.physicians w) ps \<and>
   procedure_data w' = procedure_data w \<and> collection_logs w' = collection_logs w \<and>
   slept w' = slept w"
  by (cases "connect w")
     (auto simp: save_physician_data_def split: if_splits option.splits dest: connect_tables)

lemma save_physician_data_failed:
  "save_physician_data w ps = (Inl e, w') \<Longrightarrow>
   world.physicians w' = world.physicians w \<and>
   procedure_data w' = procedure_data w \<and> collection_logs w' = collection_logs w \<and>
   slept w' = slept w"
  by (cases "connect w")
     (auto simp: save_physician_data_def after_connect_tables split: if_splits option.splits
           dest: connect_tables)

lemma save_procedure_data_ok:
  "save_procedure_data w ps = (Inr u, w') \<Longrightarrow>
   world.physicians w' = world.physicians w \<and>
   procedure_data w' = procedure_data w @ ps \<and> collection_logs w' = collection_logs w \<and>
   slept w' = slept w"
  by (cases "connect w")
     (auto simp: save_procedure_data_def split: if_splits option.splits dest: connect_tables)

lemma save_procedure_data_failed:
  "save_procedure_data w ps = (Inl e, w') \<Longrightarrow>
   world.physicians w' = world.physicians w \<and>
   procedure_data w' = procedure_data w \<and> collection_logs w' = collection_logs w \<and>
   slept w' = slept w"
  by (cases "connect w")
     (auto simp: save_procedure_data_def after_connect_tables split: if_splits option.splits
           dest: connect_tables)

text \<open>The handler: what \<open>collect_year_data\<close> makes of an exception of the \<open>try\<close> block.\<close>

lemma collect_year_data_handler:
  "collect_year_try B rem w yr = (Inl e, w1) \<Longrightarrow>
   collect_year_data B rem w yr =
     (case log_collection_run w1 yr ''FAILED'' 0 0 (Some e) of
        (Inl e', w2) \<Rightarrow> (Inl e', w2) | (Inr u, w2) \<Rightarrow> (Inr (0, 0), w2))"
  by (simp add: collect_year_data_def)

lemma collect_year_data_handler_tables:
  assumes "collect_year_try B rem w yr = (Inl e, w1)"
  shows "world.physicians (snd (collect_year_data B rem w yr)) = world.physicians w1 \<and>
         procedure_data (snd (collect_year_data B rem w yr)) = procedure_data w1"
proof -
  obtain res2 w2 where l2: "log_collection_run w1 yr ''FAILED'' 0 0 (Some e) = (res2, w2)"
    by (cases "log_collection_run w1 yr ''FAILED'' 0 0 (Some e)")
  from log_collection_run_tables [OF l2] l2 show ?thesis
    by (cases res2) (simp_all add: collect_year_data_handler [OF assms])
qed

lemma collect_year_try_procedures_failed:
  assumes "search_atlanta_orthopedic_physicians rem yr 2000 \<noteq> []"
    and "process_records B yr (search_atlanta_orthopedic_physicians rem yr 2000) [] [] = Inr (d, procs)"
    and "save_physician_data w (map snd d) = (Inr u, wa)"
    and "save_procedure_data wa procs = (Inl e, wb)"
  shows "collect_year_try B rem w yr = (Inl e, wb)"
  using assms by (simp add: collect_year_try_def Let_def)

text \<open>
  Claim C9, as the code has it. An exception raised inside the \<open>try\<close> block of
  \<open>collect_year_data\<close> is caught, and the handler writes the FAILED row. When the
  store accepts that write, the row carries the error, the result is (0, 0) and nothing
  is raised. When the store is unreachable for that write, the store's error leaves
  \<open>collect_year_data\<close>. In both cases the provider and service-line tables are as
  they were when the exception was raised: if the providers were saved and saving the
  service lines failed, the providers stay stored.
\<close>

theorem collect_year_data_handler_result:
  "(\<forall>e w1 w2. collect_year_try B rem w yr = (Inl e, w1) \<and> connect w1 = Inr w2 \<and>
        bind_error (PInt yr) = None \<longrightarrow>
      collect_year_data B rem w yr =
        (Inr (0, 0),
         w2\<lparr>collection_logs := collection_logs w2 @ [log_row yr ''FAILED'' 0 0 (Some e)]\<rparr>)) \<and>
   (\<forall>e w1 e'. collect_year_try B rem w yr = (Inl e, w1) \<and> connect w1 = Inl e' \<longrightarrow>
      collect_year_data B rem w yr = (Inl e', after_connect w1)) \<and>
   (\<forall>e w1. collect_year_try B rem w yr = (Inl e, w1) \<longrightarrow>
      world.physicians (snd (collect_year_data B rem w yr)) = world.physicians w1 \<and>
      procedure_data (snd (collect_year_data B rem w yr)) = procedure_data w1) \<and>
   (\<forall>d procs u wa e wb.
      search_atlanta_orthopedic_physicians rem yr 2000 \<noteq> [] \<and>
      process_records B yr (search_atlanta_orthopedic_physicians rem yr 2000) [] [] = Inr (d, procs) \<and>
      save_physician_data w (map snd d) = (Inr u, wa) \<and>
      save_procedure_data wa procs = (Inl e, wb) \<longrightarrow>
      world.physicians (snd (collect_year_data B rem w yr)) =
        foldl insert_or_replace (world.physicians w) (map snd d))"
proof (intro conjI allI impI)
  fix e w1 w2
  assume "collect_year_try B rem w yr = (Inl e, w1) \<and> connect w1 = Inr w2 \<and>
        bind_error (PInt yr) = None"
  then show "collect_year_data B rem w yr =
        (Inr (0, 0),
         w2\<lparr>collection_logs := collection_logs w2 @ [log_row yr ''FAILED'' 0 0 (Some e)]\<rparr>)"
    by (simp add: collect_year_data_handler log_collection_run_ok)
next
  fix e w1 e'
  assume "collect_year_try B rem w yr = (Inl e, w1) \<and> connect w1 = Inl e'"
  then show "collect_year_data B rem w yr = (Inl e', after_connect w1)"
    by (simp add: collect_year_data_handler log_collection_run_unreachable)
next
  fix e w1
  assume a: "collect_year_try B rem w yr = (Inl e, w1)"
  from collect_year_data_handler_tables [OF a]
  show "world.physicians (snd (collect_year_data B rem w yr)) = world.physicians w1"
    and "procedure_data (snd (collect_year_data B rem w yr)) = procedure_data w1"
    by simp_all
next
  fix d procs u wa e wb
  assume a: "search_atlanta_orthopedic_physicians rem yr 2000 \<noteq> [] \<and>
      process_records B yr (search_atlanta_orthopedic_physicians rem yr 2000) [] [] = Inr (d, procs) \<and>
      save_physician_data w (map snd d) = (Inr u, wa) \<and>
      save_procedure_data wa procs = (Inl e, wb)"
  then have t: "collect_year_try B rem w yr = (Inl e, wb)"
    by (simp add: collect_year_try_procedures_failed)
  from a have "world.physicians wb = foldl insert_or_replace (world.physicians w) (map snd d)"
    using save_physician_data_ok [of w "map snd d" u wa] save_procedure_data_failed [of wa procs e wb]
    by simp
  with collect_year_data_handler_tables [OF t]
  show "world.physicians (snd (collect_year_data B rem w yr)) =
        foldl insert_or_replace (world.physicians w) (map snd d)"
    by simp
qed

text \<open>
  Claim C9 as stated fails: with the store unreachable for the NO-DATA row and again
  for the FAILED row, \<open>collect_year_data\<close> raises to its caller and no row is logged.
\<close>

theorem collect_year_data_raises_counterexample:
  "collect_year_data std_builtins timing_out
     (empty_world [Some ''unable to open database file'', Some ''unable to open database file''])
     2022 =
   (Inl (StoreError ''unable to open database file''), empty_world [])"
  by code_simp

text \<open>
  The theorem at a period with one accepted record, where the providers are saved and
  the store is unreachable for the service lines: the FAILED row carries the store's
  error and the provider row is kept.
\<close>

theorem collect_year_data_handler_result_witness:
  "collect_year_try std_builtins
     (serving [PDict (example_record ''1003000126'' ''1 Main St'' ''27447'')])
     (empty_world [None, Some ''disk full'']) 2022 =
     (Inl (StoreError ''disk full''),
      (empty_world [])\<lparr>world.physicians :=
         [extract_physician_profile (example_record ''1003000126'' ''1 Main St'' ''27447'')]\<rparr>) \<and>
   collect_year_data std_builtins
     (serving [PDict (example_record ''1003000126'' ''1 Main St'' ''27447'')])
     (empty_world [None, Some ''disk full'']) 2022 =
     (Inr (0, 0),
      (empty_world [])\<lparr>world.physicians :=
         [extract_physician_profile (example_record ''1003000126'' ''1 Main St'' ''27447'')],
        collection_logs := [log_row 2022 ''FAILED'' 0 0 (Some (StoreError ''disk full''))]\<rparr>)"
proof -
  let ?rem = "serving [PDict (example_record ''1003000126'' ''1 Main St'' ''27447'')]"
  let ?w = "empty_world [None, Some ''disk full'']"
  let ?w1 = "(empty_world [])\<lparr>world.physicians :=
         [extract_physician_profile (example_record ''1003000126'' ''1 Main St'' ''27447'')]\<rparr>"
  have t: "collect_year_try std_builtins ?rem ?w 2022 = (Inl (StoreError ''disk full''), ?w1)"
    by code_simp
  have c: "connect ?w1 = Inr ?w1" by code_simp
  have b: "bind_error (PInt 2022) = None" by code_simp
  have "collect_year_data std_builtins ?rem ?w 2022 =
     (Inr (0, 0), ?w1\<lparr>collection_logs := collection_logs ?w1 @
         [log_row 2022 ''FAILED'' 0 0 (Some (StoreError ''disk full''))]\<rparr>)"
    using collect_year_data_handler_result [of std_builtins ?rem ?w 2022] t c b by blast
  moreover have "collection_logs ?w1 = []" by (simp add: empty_world_def)
  ultimately show ?thesis using t by simp
qed

text \<open>
  Claim C1, as the code has it. When the fetch for a period fails (the request raises, or
  the status of the response is not 200), \<open>search_atlanta_orthopedic_physicians\<close>
  handles the failure itself and returns no records, so \<open>collect_year_data\<close> appends
  a run-log row with status NO-DATA (written \<open>NO_DATA\<close>) and no error detail and
  returns (0, 0), provided the store is reachable for that row. Whatever the store does,
  no provider or service-line row is written, and a returned result is (0, 0).
\<close>

theorem fetch_failure_logs_no_data:
  assumes "fetch_failed rem yr"
  shows "search_atlanta_orthopedic_physicians rem yr 2000 = [] \<and>
   (\<forall>w'. connect w = Inr w' \<longrightarrow>
      collect_year_data B rem w yr =
        (Inr (0, 0),
         w'\<lparr>collection_logs := collection_logs w' @ [log_row yr ''NO_DATA'' 0 0 None]\<rparr>)) \<and>
   world.physicians (snd (collect_year_data B rem w yr)) = world.physicians w \<and>
   procedure_data (snd (collect_year_data B rem w yr)) = procedure_data w \<and>
   (\<forall>r. fst (collect_year_data B rem w yr) = Inr r \<longrightarrow> r = (0, 0))"
proof -
  have s: "search_atlanta_orthopedic_physicians rem yr 2000 = []"
    using assms by (rule search_fetch_failed)
  have b: "bind_error (PInt yr) = None"
    using assms by (rule fetch_failed_binds)
  show ?thesis
    using s collect_year_data_no_data_ok [OF s _ b] collect_year_data_no_data_tables [OF s]
    by blast
qed

text \<open>
  Claim C1 as stated fails: when the request times out, the row appended for the period
  has status \<open>NO_DATA\<close> and no error detail; it is not a FAILED row carrying the error.
\<close>

theorem fetch_failure_counterexample:
  "fetch_failed timing_out 2022 \<and>
   collect_year_data std_builtins timing_out (empty_world []) 2022 =
     (Inr (0, 0), (empty_world [])\<lparr>collection_logs := [log_row 2022 ''NO_DATA'' 0 0 None]\<rparr>) \<and>
   log_row 2022 ''NO_DATA'' 0 0 None \<noteq>
     log_row 2022 ''FAILED'' 0 0 (Some (RequestException ''Read timed out''))"
  by code_simp

text \<open>
  The theorem at a response with status 503.
\<close>

theorem fetch_failure_logs_no_data_witness:
  "fetch_failed (\<lambda>resource_id limit. Response 503 ''Service Unavailable'' None) 2021 \<and>
   connect (empty_world [None]) = Inr (empty_world []) \<and>
   collect_year_data std_builtins (\<lambda>resource_id limit. Response 503 ''Service Unavailable'' None)
       (empty_world [None]) 2021 =
     (Inr (0, 0), (empty_world [])\<lparr>collection_logs := [log_row 2021 ''NO_DATA'' 0 0 None]\<rparr>)"
proof -
  let ?rem = "\<lambda>resource_id limit. Response 503 ''Service Unavailable'' None"
  have f: "fetch_failed ?rem 2021" by code_simp
  have c: "connect (empty_world [None]) = Inr (empty_world [])" by code_simp
  have "collect_year_data std_builtins ?rem (empty_world [None]) 2021 =
     (Inr (0, 0), (empty_world [])\<lparr>collection_logs :=
        collection_logs (empty_world []) @ [log_row 2021 ''NO_DATA'' 0 0 None]\<rparr>)"
    using fetch_failure_logs_no_data [OF f, of "empty_world [None]" std_builtins] c by blast
  then show ?thesis using f c by (simp add: empty_world_def)
qed



section \<open>Provider upsert: properties\<close>

lemma insert_or_replace_key:
  "k \<noteq> PNone \<Longrightarrow>
   filter (\<lambda>q. PhysicianProfile.npi q = k) (insert_or_replace rows p) =
     (if PhysicianProfile.npi p = k then [p] else filter (\<lambda>q. PhysicianProfile.npi q = k) rows)"
  by (auto simp: insert_or_replace_def filter_empty_conv intro: filter_cong)

lemma insert_or_replace_distinct:
  assumes "distinct (map PhysicianProfile.npi rows)" and "PhysicianProfile.npi p \<noteq> PNone"
  shows "distinct (map PhysicianProfile.npi (insert_or_replace rows p))"
  using assms by (auto simp: insert_or_replace_def distinct_map_filter)

lemma insert_or_replace_set:
  "set (insert_or_replace rows p) \<subseteq> insert p (set rows)"
  by (auto simp: insert_or_replace_def)

lemma foldl_insert_or_replace_distinct:
  "distinct (map PhysicianProfile.npi rows) \<Longrightarrow> \<forall>p\<in>set ps. PhysicianProfile.npi p \<noteq> PNone \<Longrightarrow>
   distinct (map PhysicianProfile.npi (foldl insert_or_replace rows ps))"
  by (induction ps arbitrary: rows) (simp_all add: insert_or_replace_distinct)

lemma foldl_insert_or_replace_set:
  "set (foldl insert_or_replace rows ps) \<subseteq> set rows \<union> set ps"
proof (induction ps arbitrary: rows)
  case Nil
  show ?case by simp
next
  case (Cons p ps)
  from Cons.IH [of "insert_or_replace rows p"] insert_or_replace_set [of rows p]
  show ?case by auto
qed

lemma save_physician_data_cases:
  "world.physicians (snd (save_physician_data w ps)) = world.physicians w \<or>
   world.physicians (snd (save_physician_data w ps)) = foldl insert_or_replace (world.physicians w) ps"
proof (cases "save_physician_data w ps")
  case (Pair res w')
  then show ?thesis
    using save_physician_data_ok [of w ps _ w'] save_physician_data_failed [of w ps _ w']
    by (cases res) auto
qed


lemma is_str_not_None: "is_str v \<Longrightarrow> v \<noteq> PNone"
  by (auto simp: is_str_def)

lemma save_physician_data_invariant:
  assumes "distinct (map PhysicianProfile.npi (world.physicians w))"
    and "str_keys (world.physicians w)" and "str_keys ps"
  shows "distinct (map PhysicianProfile.npi (world.physicians (snd (save_physician_data w ps)))) \<and>
         str_keys (world.physicians (snd (save_physician_data w ps)))"
proof -
  have d: "distinct (map PhysicianProfile.npi (foldl insert_or_replace (world.physicians w) ps))"
    using assms(1,3) by (intro foldl_insert_or_replace_distinct) (auto simp: str_keys_def list_all_iff is_str_not_None)
  have s: "str_keys (foldl insert_or_replace (world.physicians w) ps)"
    using assms(2,3) foldl_insert_or_replace_set [of "world.physicians w" ps]
    by (auto simp: str_keys_def list_all_iff)
  from save_physician_data_cases [of w ps] d s assms show ?thesis by auto
qed

lemma save_sequence_invariant:
  "distinct (map PhysicianProfile.npi (world.physicians w)) \<Longrightarrow> str_keys (world.physicians w) \<Longrightarrow>
   list_all str_keys pss \<Longrightarrow>
   distinct (map PhysicianProfile.npi (world.physicians (save_sequence w pss)))"
  by (induction pss arbitrary: w) (simp_all add: save_physician_data_invariant)

lemma save_twice:
  assumes "PhysicianProfile.npi p1 = PStr s" and "PhysicianProfile.npi p2 = PStr s"
    and "save_physician_data w [p1] = (Inr u1, w1)" and "save_physician_data w1 [p2] = (Inr u2, w2)"
  shows "filter (\<lambda>q. PhysicianProfile.npi q = PStr s) (world.physicians w2) = [p2]"
  using save_physician_data_ok [OF assms(3)] save_physician_data_ok [OF assms(4)] assms(1,2)
  by (simp add: insert_or_replace_key)

text \<open>
  Claim C5. Saving a profile and then a profile with the same key through
  \<open>save_physician_data\<close> leaves exactly one stored row for that key, the second
  profile. From a provider table with at most one row per key, any sequence of calls of
  \<open>save_physician_data\<close> leaves a table with at most one row per key.
\<close>

theorem save_physician_data_upsert:
  "(\<forall>s u1 w1 u2 w2.
      PhysicianProfile.npi p1 = PStr s \<and> PhysicianProfile.npi p2 = PStr s \<and>
      save_physician_data w [p1] = (Inr u1, w1) \<and> save_physician_data w1 [p2] = (Inr u2, w2) \<longrightarrow>
      filter (\<lambda>q. PhysicianProfile.npi q = PStr s) (world.physicians w2) = [p2]) \<and>
   (distinct (map PhysicianProfile.npi (world.physicians w)) \<and> str_keys (world.physicians w) \<and>
      list_all str_keys pss \<longrightarrow>
      distinct (map PhysicianProfile.npi (world.physicians (save_sequence w pss))))"
  using save_twice save_sequence_invariant by blast


text \<open>
  The theorem at two profiles with the same key and different addresses, saved into an
  empty store.
\<close>

theorem save_physician_data_upsert_witness:
  "PhysicianProfile.npi profile1 = PStr ''1003000126'' \<and>
   PhysicianProfile.npi profile2 = PStr ''1003000126'' \<and>
   profile1 \<noteq> profile2 \<and>
   save_physician_data (empty_world []) [profile1] =
     (Inr (), (empty_world [])\<lparr>world.physicians := [profile1]\<rparr>) \<and>
   save_physician_data ((empty_world [])\<lparr>world.physicians := [profile1]\<rparr>) [profile2] =
     (Inr (), (empty_world [])\<lparr>world.physicians := [profile2]\<rparr>) \<and>
   filter (\<lambda>q. PhysicianProfile.npi q = PStr ''1003000126'')
     (world.physicians ((empty_world [])\<lparr>world.physicians := [profile2]\<rparr>)) = [profile2] \<and>
   distinct (map PhysicianProfile.npi
     (world.physicians (save_sequence (empty_world []) [[profile1], [profile2, profile1]])))"
proof -
  have k: "PhysicianProfile.npi profile1 = PStr ''1003000126'' \<and>
           PhysicianProfile.npi profile2 = PStr ''1003000126'' \<and> profile1 \<noteq> profile2"
    by code_simp
  have s1: "save_physician_data (empty_world []) [profile1] =
     (Inr (), (empty_world [])\<lparr>world.physicians := [profile1]\<rparr>)"
    by code_simp
  have s2: "save_physician_data ((empty_world [])\<lparr>world.physicians := [profile1]\<rparr>) [profile2] =
     (Inr (), (empty_world [])\<lparr>world.physicians := [profile2]\<rparr>)"
    by code_simp
  have h: "distinct (map PhysicianProfile.npi (world.physicians (empty_world []))) \<and>
           str_keys (world.physicians (empty_world [])) \<and>
           list_all str_keys [[profile1], [profile2, profile1]]"
    by code_simp
  note t = save_physician_data_upsert [of profile1 profile2 "empty_world []"
      "[[profile1], [profile2, profile1]]"]
  from t k s1 s2 have a: "filter (\<lambda>q. PhysicianProfile.npi q = PStr ''1003000126'')
     (world.physicians ((empty_world [])\<lparr>world.physicians := [profile2]\<rparr>)) = [profile2]"
    by blast
  from t h have b: "distinct (map PhysicianProfile.npi
     (world.physicians (save_sequence (empty_world []) [[profile1], [profile2, profile1]])))"
    by blast
  from k s1 s2 a b show ?thesis by blast
qed

section \<open>Deduplication within a period: properties\<close>

lemma py_key_eq_str: "py_key_eq a (PStr s) = (a = PStr s)" "py_key_eq (PStr s) b = (b = PStr s)"
  by (auto simp: py_key_eq_def num_val_def split: pyval.splits)

lemma extract_npi: "PhysicianProfile.npi (extract_physician_profile r) = record_key r"
  by (simp add: extract_physician_profile_def record_key_def)

lemma extract_procedure_fields:
  "extract_procedure_data B r yr = Inr p \<Longrightarrow>
   ProcedureData.npi p = record_key r \<and> hcpcs_code p = record_code r \<and> ProcedureData.year p = yr"
  by (auto simp: extract_procedure_data_def Let_def record_key_def record_code_def split: sum.splits)








lemma log_collection_run_result:
  "log_collection_run w yr st a b err = (Inr u, w') \<Longrightarrow>
   collection_logs w' = collection_logs w @ [log_row yr st a b err]"
  by (cases "connect w")
     (auto simp: log_collection_run_def log_row_def split: option.splits dest: connect_tables)








section \<open>Counts of a collected period: properties\<close>

lemma process_records_procedures:
  assumes "process_records B yr recs d ps = Inr (d', ps')"
  shows "\<exists>new. ps' = ps @ new \<and> length new = line_count recs \<and>
               (\<forall>p\<in>set new. ProcedureData.year p = yr)"
  using assms
proof (induction recs arbitrary: d ps)
  case Nil
  then show ?case by (simp add: line_count_def)
next
  case (Cons r recs)
  let ?d1 = "if truthy (record_key r) then dict_set d (record_key r) (extract_physician_profile r) else d"
  from Cons.prems obtain p where
    p: "extract_procedure_data B r yr = Inr p" and
    rest: "process_records B yr recs ?d1
             (if truthy (ProcedureData.npi p) \<and> truthy (hcpcs_code p) then ps @ [p] else ps) =
           Inr (d', ps')"
    by (auto simp: Let_def extract_npi split: if_splits sum.splits)
  note f = extract_procedure_fields [OF p]
  from Cons.IH [OF rest] obtain new where
    n: "ps' = (if truthy (ProcedureData.npi p) \<and> truthy (hcpcs_code p) then ps @ [p] else ps) @ new"
      "length new = line_count recs" "\<forall>p\<in>set new. ProcedureData.year p = yr"
    by blast
  show ?case
  proof (cases "truthy (record_key r) \<and> truthy (record_code r)")
    case True
    with n f have "ps' = ps @ (p # new) \<and> length (p # new) = line_count (r # recs) \<and>
                   (\<forall>q\<in>set (p # new). ProcedureData.year q = yr)"
      by (simp add: line_count_def)
    then show ?thesis by blast
  next
    case False
    with n f have "ps' = ps @ new \<and> length new = line_count (r # recs) \<and>
                   (\<forall>q\<in>set new. ProcedureData.year q = yr)"
      by (auto simp: line_count_def)
    then show ?thesis by blast
  qed
qed

lemma py_key_eq_is_str: "is_str a \<Longrightarrow> is_str b \<Longrightarrow> py_key_eq a b = (a = b)"
  by (auto simp: is_str_def py_key_eq_str split: pyval.splits)

lemma dict_set_keys:
  assumes "\<forall>k\<in>set (map fst d). is_str k" and "is_str x"
  shows "map fst (dict_set d x v) = (if x \<in> set (map fst d) then map fst d else map fst d @ [x])"
  using assms
proof (induction d)
  case Nil
  show ?case by simp
next
  case (Cons a d)
  obtain k' v' where a: "a = (k', v')" by (cases a)
  with Cons.prems have "py_key_eq k' x = (k' = x)" by (simp add: py_key_eq_is_str)
  with Cons a show ?case by auto
qed

lemma dict_set_inv:
  assumes "dict_inv d" and "is_str x" and "PhysicianProfile.npi v = x"
  shows "dict_inv (dict_set d x v) \<and> set (map fst (dict_set d x v)) = insert x (set (map fst d))"
proof -
  have k: "\<forall>k\<in>set (map fst d). is_str k" using assms(1) by (auto simp: dict_inv_def)
  note ks = dict_set_keys [OF k assms(2), of v]
  have vals: "\<forall>(k, v')\<in>set (dict_set d x v). is_str k \<and> PhysicianProfile.npi v' = k"
    using assms
  proof (induction d)
    case Nil
    then show ?case by simp
  next
    case (Cons a d)
    obtain k' v' where a: "a = (k', v')" by (cases a)
    from Cons.prems(1) a have i: "dict_inv d" and h: "is_str k'" "PhysicianProfile.npi v' = k'"
      by (auto simp: dict_inv_def)
    from h Cons.prems(2) have e: "py_key_eq k' x = (k' = x)" by (simp add: py_key_eq_is_str)
    from Cons.IH [OF i Cons.prems(2,3)] Cons.prems a h e i show ?case
      by (auto simp: dict_inv_def)
  qed
  from ks assms(1) have "distinct (map fst (dict_set d x v))"
    by (auto simp: dict_inv_def)
  with vals ks show ?thesis by (auto simp: dict_inv_def)
qed

lemma process_records_dict:
  assumes "process_records B yr recs d ps = Inr (d', ps')" and "dict_inv d" and "simple_keys recs"
  shows "dict_inv d' \<and>
         set (map fst d') = set (map fst d) \<union> set (filter truthy (map record_key recs))"
  using assms
proof (induction recs arbitrary: d ps)
  case Nil
  then show ?case by simp
next
  case (Cons r recs)
  let ?v = "extract_physician_profile r"
  let ?d1 = "if truthy (record_key r) then dict_set d (record_key r) ?v else d"
  from Cons.prems(1) obtain p where
    rest: "process_records B yr recs ?d1
             (if truthy (ProcedureData.npi p) \<and> truthy (hcpcs_code p) then ps @ [p] else ps) =
           Inr (d', ps')"
    by (auto simp: Let_def extract_npi split: if_splits sum.splits)
  from Cons.prems(3) have sk: "simple_keys recs" and sr: "truthy (record_key r) \<longrightarrow> is_str (record_key r)"
    by (simp_all add: simple_keys_def)
  have d1: "dict_inv ?d1 \<and>
            set (map fst ?d1) = set (map fst d) \<union> set (filter truthy [record_key r])"
  proof (cases "truthy (record_key r)")
    case True
    with sr dict_set_inv [OF Cons.prems(2), of "record_key r" ?v] show ?thesis
      by (simp add: extract_npi)
  next
    case False
    with Cons.prems(2) show ?thesis by simp
  qed
  from Cons.IH [OF rest _ sk] d1 show ?case by auto
qed

lemma process_records_provider_count:
  assumes "process_records B yr recs [] [] = Inr (d, ps)" and "simple_keys recs"
  shows "length (map snd d) = provider_count recs \<and>
         map PhysicianProfile.npi (map snd d) = map fst d \<and>
         set (map fst d) = set (filter truthy (map record_key recs)) \<and>
         distinct (map fst d) \<and> (\<forall>k\<in>set (map fst d). is_str k)"
proof -
  have "dict_inv []" by (simp add: dict_inv_def)
  from process_records_dict [OF assms(1) this assms(2)]
  have i: "dict_inv d" and s: "set (map fst d) = set (filter truthy (map record_key recs))"
    by simp_all
  from i have dk: "distinct (map fst d)" by (simp add: dict_inv_def)
  from i have n: "map PhysicianProfile.npi (map snd d) = map fst d"
    by (auto simp: dict_inv_def)
  from i have st: "\<forall>k\<in>set (map fst d). is_str k" by (auto simp: dict_inv_def)
  have "length (map fst d) = card (set (map fst d))"
    using distinct_card [OF dk] by simp
  also have "\<dots> = provider_count recs"
    unfolding s provider_count_def by (simp add: length_remdups_card_conv)
  finally show ?thesis using n s dk st by simp
qed


lemma insert_or_replace_keys:
  "PhysicianProfile.npi p \<noteq> PNone \<Longrightarrow>
   set (map PhysicianProfile.npi (insert_or_replace rows p)) =
     insert (PhysicianProfile.npi p) (set (map PhysicianProfile.npi rows))"
  by (auto simp: insert_or_replace_def)

lemma foldl_insert_or_replace_keys:
  "\<forall>p\<in>set ps. PhysicianProfile.npi p \<noteq> PNone \<Longrightarrow>
   set (map PhysicianProfile.npi (foldl insert_or_replace rows ps)) =
     set (map PhysicianProfile.npi rows) \<union> set (map PhysicianProfile.npi ps)"
proof (induction ps arbitrary: rows)
  case Nil
  show ?case by simp
next
  case (Cons p ps)
  from Cons.prems have "PhysicianProfile.npi p \<noteq> PNone" and "\<forall>p\<in>set ps. PhysicianProfile.npi p \<noteq> PNone"
    by simp_all
  from Cons.IH [OF this(2), of "insert_or_replace rows p"] insert_or_replace_keys [OF this(1), of rows]
  show ?case by auto
qed

lemma count_distinct_card: "count_distinct vs = card (set vs - {PNone})"
proof -
  have "set (filter (\<lambda>v. v \<noteq> PNone) vs) = set vs - {PNone}" by auto
  then show ?thesis by (simp add: count_distinct_def length_remdups_card_conv)
qed

lemma count_distinct_union:
  assumes "PNone \<notin> K" and "finite K"
  shows "card ((set vs \<union> K) - {PNone}) \<le> card (set vs - {PNone}) + card K"
    and "K \<inter> set vs = {} \<Longrightarrow> card ((set vs \<union> K) - {PNone}) = card (set vs - {PNone}) + card K"
proof -
  have e: "(set vs \<union> K) - {PNone} = (set vs - {PNone}) \<union> K" using assms(1) by auto
  show "card ((set vs \<union> K) - {PNone}) \<le> card (set vs - {PNone}) + card K"
    unfolding e by (rule card_Un_le)
  assume "K \<inter> set vs = {}"
  then have "(set vs - {PNone}) \<inter> K = {}" by auto
  then show "card ((set vs \<union> K) - {PNone}) = card (set vs - {PNone}) + card K"
    unfolding e using assms(2) by (simp add: card_Un_disjoint)
qed

lemma year_count_summary:
  "year_count (get_collection_summary w) y =
     length (filter (\<lambda>p. ProcedureData.year p = y) (procedure_data w))"
proof -
  let ?f = "\<lambda>y. (length (filter (\<lambda>p. ProcedureData.year p = y) (procedure_data w)),
                  count_distinct (map ProcedureData.npi
                     (filter (\<lambda>p. ProcedureData.year p = y) (procedure_data w))))"
  let ?ys = "rev (sort (remdups (map ProcedureData.year (procedure_data w))))"
  have m: "map_of (map (\<lambda>y. (y, ?f y)) ?ys) y = (if y \<in> set ?ys then Some (?f y) else None)"
    by (simp add: map_of_map_restrict restrict_map_def)
  have s: "set ?ys = set (map ProcedureData.year (procedure_data w))" by simp
  have z: "y \<notin> set (map ProcedureData.year (procedure_data w)) \<Longrightarrow>
           filter (\<lambda>p. ProcedureData.year p = y) (procedure_data w) = []"
    by (auto simp: filter_empty_conv)
  have "year_summary (get_collection_summary w) = map (\<lambda>y. (y, ?f y)) ?ys"
    by (simp add: get_collection_summary_def)
  then show ?thesis
    unfolding year_count_def using m s z by (auto simp del: set_rev set_sort set_remdups set_map)
qed

lemma collect_year_try_success:
  assumes "search_atlanta_orthopedic_physicians rem yr 2000 \<noteq> []"
    and "collect_year_try B rem w yr = (Inr r, w')"
  shows "\<exists>d procs u1 wa u2 wb u3.
           process_records B yr (search_atlanta_orthopedic_physicians rem yr 2000) [] [] = Inr (d, procs) \<and>
           save_physician_data w (map snd d) = (Inr u1, wa) \<and>
           save_procedure_data wa procs = (Inr u2, wb) \<and>
           log_collection_run wb yr ''SUCCESS'' (length procs) (length (map snd d)) None = (Inr u3, w') \<and>
           r = (length (map snd d), length procs)"
  using assms
  by (auto simp: collect_year_try_def Let_def split: sum.splits prod.splits)


text \<open>
  Claim C6, as the code has it. Let a period be collected without an exception, from a non-empty batch of
  accepted records whose non-empty provider keys are strings. Then
  \<open>collect_year_data\<close> returns the number of distinct non-empty provider keys and
  the number of records whose provider key and procedure code are both non-empty, and
  the run-log row it appends is the SUCCESS row with exactly these two counts. The
  total-providers count of the summary grows by at most the number of distinct keys, and
  by exactly that number when none of the keys was stored before. The service-line
  count of the period in the summary grows by the number of records with both fields
  non-empty, and equals that number when no service line of the period was stored
  before.
\<close>

theorem collect_year_data_counts:
  assumes "search_atlanta_orthopedic_physicians rem yr 2000 = recs" and "recs \<noteq> []"
    and "simple_keys recs" and "collect_year_try B rem w yr = (Inr r, w')"
  shows "collect_year_data B rem w yr = (Inr (provider_count recs, line_count recs), w') \<and>
    collection_logs w' =
      collection_logs w @ [log_row yr ''SUCCESS'' (line_count recs) (provider_count recs) None] \<and>
    total_physicians (get_collection_summary w') \<le>
      total_physicians (get_collection_summary w) + provider_count recs \<and>
    (set (filter truthy (map record_key recs)) \<inter>
       set (map PhysicianProfile.npi (world.physicians w)) = {} \<longrightarrow>
     total_physicians (get_collection_summary w') =
       total_physicians (get_collection_summary w) + provider_count recs) \<and>
    year_count (get_collection_summary w') yr =
      year_count (get_collection_summary w) yr + line_count recs \<and>
    (year_count (get_collection_summary w) yr = 0 \<longrightarrow>
     year_count (get_collection_summary w') yr = line_count recs)"
proof -
  from collect_year_try_success [of rem yr B w r w'] assms(1,2,4)
  obtain d procs u1 wa u2 wb u3 where
    p: "process_records B yr recs [] [] = Inr (d, procs)" and
    s1: "save_physician_data w (map snd d) = (Inr u1, wa)" and
    s2: "save_procedure_data wa procs = (Inr u2, wb)" and
    s3: "log_collection_run wb yr ''SUCCESS'' (length procs) (length (map snd d)) None = (Inr u3, w')" and
    r: "r = (length (map snd d), length procs)"
    by auto
  note pc = process_records_provider_count [OF p assms(3)]
  from process_records_procedures [OF p] obtain new where
    new: "procs = new" "length new = line_count recs" "\<forall>q\<in>set new. ProcedureData.year q = yr"
    by auto
  note t1 = save_physician_data_ok [OF s1]
  note t2 = save_procedure_data_ok [OF s2]
  note t3 = log_collection_run_tables [OF s3]
  note l3 = log_collection_run_result [OF s3]
  have res: "r = (provider_count recs, line_count recs)"
    using r pc new by simp
  have c: "collect_year_data B rem w yr = (Inr (provider_count recs, line_count recs), w')"
    using assms(4) res by (simp add: collect_year_data_def)
  have logs: "collection_logs w' =
      collection_logs w @ [log_row yr ''SUCCESS'' (line_count recs) (provider_count recs) None]"
    using l3 t1 t2 pc new by simp
  let ?K = "set (filter truthy (map record_key recs))"
  have nn: "\<forall>q\<in>set (map snd d). PhysicianProfile.npi q \<noteq> PNone"
  proof
    fix q assume "q \<in> set (map snd d)"
    then have "PhysicianProfile.npi q \<in> set (map PhysicianProfile.npi (map snd d))" by force
    moreover from pc have "map PhysicianProfile.npi (map snd d) = map fst d" by blast
    ultimately have "PhysicianProfile.npi q \<in> set (map fst d)" by (simp only:)
    moreover from pc have "\<forall>k\<in>set (map fst d). is_str k" by blast
    ultimately have "is_str (PhysicianProfile.npi q)" by blast
    then show "PhysicianProfile.npi q \<noteq> PNone" by (rule is_str_not_None)
  qed
  have keys: "set (map PhysicianProfile.npi (world.physicians w')) =
              set (map PhysicianProfile.npi (world.physicians w)) \<union> ?K"
    using t3 t2 t1 foldl_insert_or_replace_keys [OF nn, of "world.physicians w"] pc by simp
  have K: "PNone \<notin> ?K" "finite ?K" "card ?K = provider_count recs"
    by (simp_all add: provider_count_def length_remdups_card_conv)
  have tot: "total_physicians (get_collection_summary v) =
             card (set (map PhysicianProfile.npi (world.physicians v)) - {PNone})" for v
    by (simp add: get_collection_summary_def count_distinct_card)
  have le: "total_physicians (get_collection_summary w') \<le>
      total_physicians (get_collection_summary w) + provider_count recs"
    unfolding tot keys
    using count_distinct_union(1) [OF K(1,2), of "map PhysicianProfile.npi (world.physicians w)"]
    by (simp only: K(3))
  have eq: "?K \<inter> set (map PhysicianProfile.npi (world.physicians w)) = {} \<longrightarrow>
     total_physicians (get_collection_summary w') =
       total_physicians (get_collection_summary w) + provider_count recs"
    unfolding tot keys
    using count_distinct_union(2) [OF K(1,2), of "map PhysicianProfile.npi (world.physicians w)"]
    by (simp only: K(3)) blast
  have yc: "year_count (get_collection_summary w') yr =
      year_count (get_collection_summary w) yr + line_count recs"
    using t3 t2 t1 new by (simp add: year_count_summary)
  from yc have y0: "year_count (get_collection_summary w) yr = 0 \<longrightarrow>
     year_count (get_collection_summary w') yr = line_count recs"
    by simp
  from c logs le eq yc y0 show ?thesis by blast
qed

text \<open>
  The theorem at the batch of three records, collected into an empty store: one provider,
  two service lines.
\<close>

theorem collect_year_data_counts_witness:
  "search_atlanta_orthopedic_physicians (serving (map PDict example_batch)) 2022 2000 = example_batch \<and>
   simple_keys example_batch \<and> provider_count example_batch = 1 \<and> line_count example_batch = 2 \<and>
   collect_year_data std_builtins (serving (map PDict example_batch)) (empty_world []) 2022 =
     (Inr (1, 2), snd (collect_year_try std_builtins (serving (map PDict example_batch)) (empty_world []) 2022)) \<and>
   collection_logs (snd (collect_year_data std_builtins (serving (map PDict example_batch)) (empty_world []) 2022)) =
     [log_row 2022 ''SUCCESS'' 2 1 None] \<and>
   total_physicians (get_collection_summary
     (snd (collect_year_data std_builtins (serving (map PDict example_batch)) (empty_world []) 2022))) = 1 \<and>
   year_count (get_collection_summary
     (snd (collect_year_data std_builtins (serving (map PDict example_batch)) (empty_world []) 2022))) 2022 = 2"
proof -
  let ?rem = "serving (map PDict example_batch)"
  let ?w' = "snd (collect_year_try std_builtins ?rem (empty_world []) 2022)"
  have s: "search_atlanta_orthopedic_physicians ?rem 2022 2000 = example_batch" by code_simp
  have ne: "example_batch \<noteq> []" by code_simp
  have sk: "simple_keys example_batch" by code_simp
  have n: "provider_count example_batch = 1 \<and> line_count example_batch = 2" by code_simp
  have t: "collect_year_try std_builtins ?rem (empty_world []) 2022 = (Inr (1, 2), ?w')"
    by code_simp
  have z: "total_physicians (get_collection_summary (empty_world [])) = 0 \<and>
           year_count (get_collection_summary (empty_world [])) 2022 = 0 \<and>
           collection_logs (empty_world []) = [] \<and>
           set (filter truthy (map record_key example_batch)) \<inter>
             set (map PhysicianProfile.npi (world.physicians (empty_world []))) = {}"
    by (simp add: empty_world_def get_collection_summary_def count_distinct_def year_count_def)
  note c = collect_year_data_counts [OF s ne sk t]
  from c n have c1: "collect_year_data std_builtins ?rem (empty_world []) 2022 = (Inr (1, 2), ?w')"
    by simp
  from c n z have "collection_logs ?w' = [log_row 2022 ''SUCCESS'' 2 1 None] \<and>
      total_physicians (get_collection_summary ?w') = 1 \<and>
      year_count (get_collection_summary ?w') 2022 = 2"
    by simp
  with c1 s sk n show ?thesis by simp
qed

text \<open>
  Claim C6 as stated fails when the period was collected before: service lines are
  appended, so after collecting the batch of three records twice the summary counts
  four service lines for the period, while two records of the batch have a provider key
  and a procedure code.
\<close>

theorem collect_year_data_counts_counterexample:
  "line_count example_batch = 2 \<and>
   year_count (get_collection_summary
     (snd (collect_year_data std_builtins (serving (map PDict example_batch))
        (snd (collect_year_data std_builtins (serving (map PDict example_batch))
           (empty_world []) 2022)) 2022))) 2022 = 4"
  by code_simp

section \<open>Collecting several periods: properties\<close>





















end
